theory Spec2Isabelle
  imports Main
begin

section \<open>The template registry\<close>

text \<open>
  The script \<^verbatim>\<open>init_agent.py\<close> holds one dictionary literal, \<^verbatim>\<open>TEMPLATES\<close>, from a
  pattern name to a template with the keys \<^verbatim>\<open>tools\<close>, \<^verbatim>\<open>model\<close> and \<^verbatim>\<open>prompt\<close>.
  A template is a record; the dictionary is an association list in the order of the
  literal, since \<^verbatim>\<open>TEMPLATES.keys()\<close> is printed in insertion order. Each prompt is a
  triple-quoted string: one line of the literal per line here, the line breaks written
  out. The last line of a prompt carries no line break.
\<close>

record template =
  tools :: "string list"
  model :: string
  prompt :: string

definition researcher_prompt :: string where
  \<open>researcher_prompt =
     ''You are a research specialist focused on finding and analyzing information.\<newline>'' @
     ''\<newline>'' @
     ''## Capabilities\<newline>'' @
     ''\<newline>'' @
     ''- Search and retrieve information from files and web\<newline>'' @
     ''- Analyze documentation and code\<newline>'' @
     ''- Identify patterns and relationships\<newline>'' @
     ''- Synthesize findings into clear summaries\<newline>'' @
     ''\<newline>'' @
     ''## Guidelines\<newline>'' @
     ''\<newline>'' @
     ''- Explore thoroughly before drawing conclusions\<newline>'' @
     ''- Cite sources and file locations for findings\<newline>'' @
     ''- Acknowledge uncertainty when present\<newline>'' @
     ''- Present multiple perspectives when relevant\<newline>'' @
     ''\<newline>'' @
     ''## Output Format\<newline>'' @
     ''\<newline>'' @
     ''Provide findings with:\<newline>'' @
     ''1. Summary of key discoveries\<newline>'' @
     ''2. Supporting evidence with file paths or URLs\<newline>'' @
     ''3. Confidence level for conclusions\<newline>'' @
     ''4. Suggestions for further investigation if needed''\<close>

definition reviewer_prompt :: string where
  \<open>reviewer_prompt =
     ''You are a senior software engineer specializing in code review.\<newline>'' @
     ''\<newline>'' @
     ''## Review Focus Areas\<newline>'' @
     ''\<newline>'' @
     ''1. **Security** - Vulnerabilities, injection risks, auth issues\<newline>'' @
     ''2. **Performance** - Inefficiencies, N+1 queries, memory leaks\<newline>'' @
     ''3. **Maintainability** - Complexity, duplication, unclear logic\<newline>'' @
     ''4. **Correctness** - Edge cases, error handling, type safety\<newline>'' @
     ''\<newline>'' @
     ''## Review Process\<newline>'' @
     ''\<newline>'' @
     ''1. Understand the code's purpose and context\<newline>'' @
     ''2. Read all relevant files before commenting\<newline>'' @
     ''3. Check for security vulnerabilities first\<newline>'' @
     ''4. Analyze performance implications\<newline>'' @
     ''5. Evaluate maintainability and readability\<newline>'' @
     ''\<newline>'' @
     ''## Output Format\<newline>'' @
     ''\<newline>'' @
     ''For each issue found:\<newline>'' @
     ''- **Severity**: Critical / Warning / Suggestion\<newline>'' @
     ''- **Location**: file:line\<newline>'' @
     ''- **Issue**: Clear description\<newline>'' @
     ''- **Recommendation**: Specific fix\<newline>'' @
     ''\<newline>'' @
     ''## Guidelines\<newline>'' @
     ''\<newline>'' @
     ''- Do not make changes, only analyze and report\<newline>'' @
     ''- Be specific with line numbers and code references\<newline>'' @
     ''- Explain *why* something is an issue, not just *what*\<newline>'' @
     ''- Prioritize security and correctness over style''\<close>

definition specialist_prompt :: string where
  \<open>specialist_prompt =
     ''You are a specialist in [DOMAIN].\<newline>'' @
     ''\<newline>'' @
     ''## Expertise\<newline>'' @
     ''\<newline>'' @
     ''- [List your areas of expertise]\<newline>'' @
     ''- [Add specific technologies/frameworks]\<newline>'' @
     ''- [Include relevant patterns/practices]\<newline>'' @
     ''\<newline>'' @
     ''## Guidelines\<newline>'' @
     ''\<newline>'' @
     ''- Follow established patterns in the codebase\<newline>'' @
     ''- Write clean, maintainable code\<newline>'' @
     ''- Keep solutions simple and focused\<newline>'' @
     ''- Test changes appropriately\<newline>'' @
     ''\<newline>'' @
     ''Avoid over-engineering. Only make changes directly requested or clearly necessary.''\<close>

definition builder_prompt :: string where
  \<open>builder_prompt =
     ''You are an implementation specialist focused on writing quality code.\<newline>'' @
     ''\<newline>'' @
     ''## Approach\<newline>'' @
     ''\<newline>'' @
     ''1. Understand requirements completely before coding\<newline>'' @
     ''2. Read existing code to understand patterns\<newline>'' @
     ''3. Implement minimal, focused changes\<newline>'' @
     ''4. Test changes work correctly\<newline>'' @
     ''5. Clean up after yourself\<newline>'' @
     ''\<newline>'' @
     ''## Guidelines\<newline>'' @
     ''\<newline>'' @
     ''Avoid over-engineering. Only make changes directly requested or clearly necessary.\<newline>'' @
     ''Keep solutions simple and focused.\<newline>'' @
     ''\<newline>'' @
     ''Do not:\<newline>'' @
     ''- Add features beyond what was asked\<newline>'' @
     ''- Refactor surrounding code during bug fixes\<newline>'' @
     ''- Create abstractions for one-time operations\<newline>'' @
     ''- Add error handling for impossible scenarios\<newline>'' @
     ''\<newline>'' @
     ''## Code Standards\<newline>'' @
     ''\<newline>'' @
     ''- Follow existing patterns in the codebase\<newline>'' @
     ''- Write clear, self-documenting code\<newline>'' @
     ''- Handle errors at system boundaries\<newline>'' @
     ''- Use TypeScript types appropriately''\<close>

definition quick_prompt :: string where
  \<open>quick_prompt =
     ''You are a fast, efficient assistant for quick tasks.\<newline>'' @
     ''\<newline>'' @
     ''## Focus\<newline>'' @
     ''\<newline>'' @
     ''- Concise answers\<newline>'' @
     ''- Direct solutions\<newline>'' @
     ''- Fast turnaround\<newline>'' @
     ''- No over-explanation\<newline>'' @
     ''\<newline>'' @
     ''Keep responses brief. Get to the point immediately.''\<close>

definition orchestrator_prompt :: string where
  \<open>orchestrator_prompt =
     ''You are a technical coordinator who accomplishes complex tasks by delegating to specialized sub-agents.\<newline>'' @
     ''\<newline>'' @
     ''## Coordination Strategy\<newline>'' @
     ''\<newline>'' @
     ''1. Break complex tasks into discrete sub-tasks\<newline>'' @
     ''2. Identify which sub-agent is best for each\<newline>'' @
     ''3. Spawn sub-agents in parallel when independent\<newline>'' @
     ''4. Synthesize results into cohesive outcome\<newline>'' @
     ''5. Track progress with TodoWrite\<newline>'' @
     ''\<newline>'' @
     ''## Guidelines\<newline>'' @
     ''\<newline>'' @
     ''- Plan before executing\<newline>'' @
     ''- Delegate rather than implement directly\<newline>'' @
     ''- Run independent sub-agents in parallel\<newline>'' @
     ''- Verify sub-agent results before proceeding\<newline>'' @
     ''- Maintain overall coherence across sub-tasks''\<close>

definition planner_prompt :: string where
  \<open>planner_prompt =
     ''You are a software architect focused on design and planning.\<newline>'' @
     ''\<newline>'' @
     ''## Responsibilities\<newline>'' @
     ''\<newline>'' @
     ''- Analyze requirements and constraints\<newline>'' @
     ''- Design system architecture\<newline>'' @
     ''- Create implementation roadmaps\<newline>'' @
     ''- Identify risks and trade-offs\<newline>'' @
     ''- Document technical decisions\<newline>'' @
     ''\<newline>'' @
     ''## Process\<newline>'' @
     ''\<newline>'' @
     ''1. Understand current state and requirements\<newline>'' @
     ''2. Research relevant patterns and solutions\<newline>'' @
     ''3. Design architecture with clear boundaries\<newline>'' @
     ''4. Create step-by-step implementation plan\<newline>'' @
     ''5. Document decisions and trade-offs\<newline>'' @
     ''\<newline>'' @
     ''## Output Format\<newline>'' @
     ''\<newline>'' @
     ''Plans should include:\<newline>'' @
     ''1. **Overview** - What and why\<newline>'' @
     ''2. **Architecture** - Components and relationships\<newline>'' @
     ''3. **Implementation Steps** - Ordered, actionable tasks\<newline>'' @
     ''4. **Risks** - Potential issues and mitigations\<newline>'' @
     ''5. **Trade-offs** - Decisions made and alternatives considered\<newline>'' @
     ''\<newline>'' @
     ''## Guidelines\<newline>'' @
     ''\<newline>'' @
     ''- Do not implement, only plan\<newline>'' @
     ''- Consider maintainability and scalability\<newline>'' @
     ''- Identify dependencies between steps''\<close>

definition TEMPLATES :: "(string \<times> template) list" where
  "TEMPLATES =
    [(''researcher'',
      \<lparr>tools = [''Read'', ''Grep'', ''Glob'', ''WebSearch'', ''WebFetch''],
       model = ''sonnet'',
       prompt = researcher_prompt\<rparr>),
     (''reviewer'',
      \<lparr>tools = [''Read'', ''Grep'', ''Glob'', ''Bash''],
       model = ''sonnet'',
       prompt = reviewer_prompt\<rparr>),
     (''specialist'',
      \<lparr>tools = [''Read'', ''Write'', ''Edit'', ''Grep'', ''Glob'', ''Bash''],
       model = ''sonnet'',
       prompt = specialist_prompt\<rparr>),
     (''builder'',
      \<lparr>tools = [''Read'', ''Write'', ''Edit'', ''Grep'', ''Glob'', ''Bash'', ''TodoWrite''],
       model = ''sonnet'',
       prompt = builder_prompt\<rparr>),
     (''quick'',
      \<lparr>tools = [''Read'', ''Grep'', ''Glob''],
       model = ''haiku'',
       prompt = quick_prompt\<rparr>),
     (''orchestrator'',
      \<lparr>tools = [''Read'', ''Grep'', ''Glob'', ''Task'', ''TodoWrite''],
       model = ''opus'',
       prompt = orchestrator_prompt\<rparr>),
     (''planner'',
      \<lparr>tools = [''Read'', ''Grep'', ''Glob'', ''WebSearch''],
       model = ''opus'',
       prompt = planner_prompt\<rparr>)]"

section \<open>The name validator\<close>

text \<open>
  \<^verbatim>\<open>validate_name\<close> is \<^verbatim>\<open>bool(re.match(r'^[a-z][a-z0-9-]*$', name))\<close>. The character
  classes are ranges of code points. Without the \<^verbatim>\<open>MULTILINE\<close> flag, \<^verbatim>\<open>$\<close> in Python's
  \<^verbatim>\<open>re\<close> matches at the end of the string and also just before a line break that is the
  last character of the string; \<open>match_rest\<close> is the matcher for \<^verbatim>\<open>[a-z0-9-]*$\<close>, the
  star giving back characters until \<^verbatim>\<open>$\<close> matches. Strings are lists of 8-bit
  characters here; a character outside ASCII is in no class of the pattern, in Python
  as in the model.
\<close>

definition lower_char :: "char \<Rightarrow> bool" where
  "lower_char c = (97 \<le> (of_char c :: nat) \<and> (of_char c :: nat) \<le> 122)"

definition digit_char :: "char \<Rightarrow> bool" where
  "digit_char c = (48 \<le> (of_char c :: nat) \<and> (of_char c :: nat) \<le> 57)"

definition name_char :: "char \<Rightarrow> bool" where
  "name_char c = (lower_char c \<or> digit_char c \<or> c = CHR ''-'')"

definition dollar :: "string \<Rightarrow> bool" where
  "dollar s = (s = [] \<or> s = [CHR ''\<newline>''])"

fun match_rest :: "string \<Rightarrow> bool" where
  "match_rest [] = dollar []"
| "match_rest (c # cs) = ((name_char c \<and> match_rest cs) \<or> dollar (c # cs))"

fun validate_name :: "string \<Rightarrow> bool" where
  "validate_name [] = False"
| "validate_name (c # cs) = (lower_char c \<and> match_rest cs)"

text \<open>
  The pattern as the documentation reads it: a lowercase letter, then lowercase letters,
  digits and hyphens up to the very end of the string.
\<close>

definition name_pattern :: "string \<Rightarrow> bool" where
  "name_pattern s = (s \<noteq> [] \<and> lower_char (hd s) \<and> list_all name_char (tl s))"

section \<open>Paths and the file system\<close>

text \<open>
  A \<^verbatim>\<open>pathlib.Path\<close> is its anchor (absolute or relative) and its components. The
  script builds one path, \<^verbatim>\<open>path / f"{name}.md"\<close>, after the name has passed
  \<^verbatim>\<open>validate_name\<close>; such a segment has no \<^verbatim>\<open>/\<close> in it (lemma \<open>valid_segment\<close>
  below), so the join adds it as one component.
\<close>

datatype path = Path (absolute: bool) (parts: "string list")

definition truediv :: "path \<Rightarrow> string \<Rightarrow> path" where
  "truediv p seg = Path (absolute p) (parts p @ [seg])"

definition parent :: "path \<Rightarrow> path" where
  "parent p = Path (absolute p) (butlast (parts p))"

text \<open>\<^verbatim>\<open>sep.join(xs)\<close>\<close>

fun join :: "string \<Rightarrow> string list \<Rightarrow> string" where
  "join sep [] = []"
| "join sep [x] = x"
| "join sep (x # y # ys) = x @ sep @ join sep (y # ys)"

text \<open>\<^verbatim>\<open>str(p)\<close>, as the f-string of the last diagnostic renders the path\<close>

definition str_path :: "path \<Rightarrow> string" where
  "str_path p =
     (if absolute p then ''/'' @ join ''/'' (parts p)
      else if parts p = [] then ''.'' else join ''/'' (parts p))"

text \<open>
  The path itself and the paths above it, the anchor left out, from the top down:
  the directories \<^verbatim>\<open>mkdir(parents=True)\<close> looks at.
\<close>

definition lineage :: "path \<Rightarrow> path list" where
  "lineage p = map (\<lambda>n. Path (absolute p) (take n (parts p))) [1..<Suc (length (parts p))]"

text \<open>
  The state the script acts on: the directories and the regular files of the file
  system, keyed by path, and what has been printed so far on the two output streams, one
  entry for each call of \<^verbatim>\<open>print\<close>. The
  anchor of a path (the root, or the working directory of a relative path) is a
  directory that always exists. Symbolic links, \<^verbatim>\<open>..\<close> components, permissions and
  full disks are outside the model.
\<close>

record world =
  dirs :: "path set"
  files :: "path \<rightharpoonup> string"
  stdout :: "string list"
  stderr :: "string list"

definition is_dir :: "world \<Rightarrow> path \<Rightarrow> bool" where
  "is_dir w p = (parts p = [] \<or> p \<in> dirs w)"

definition is_file :: "world \<Rightarrow> path \<Rightarrow> bool" where
  "is_file w p = (files w p \<noteq> None)"

definition path_exists :: "world \<Rightarrow> path \<Rightarrow> bool" where
  "path_exists w p = (is_dir w p \<or> is_file w p)"

text \<open>
  A file system is well formed when whatever exists lies in a directory and nothing is
  both a directory and a regular file.
\<close>

definition fs_ok :: "world \<Rightarrow> bool" where
  "fs_ok w = ((\<forall>p \<in> dirs w \<union> dom (files w). is_dir w (parent p)) \<and>
              (\<forall>p \<in> dom (files w). \<not> is_dir w p))"

datatype exn = FileExistsError | NotADirectoryError | FileNotFoundError | IsADirectoryError

text \<open>
  What a call does: it returns a value, leaves through \<^verbatim>\<open>sys.exit(n)\<close>, or raises an
  exception that nothing in the script catches.
\<close>

datatype 'a outcome = Return 'a | Exit int | Raise exn

text \<open>
  \<^verbatim>\<open>p.mkdir(parents=True, exist_ok=True)\<close>: every missing directory on the way to \<open>p\<close>
  and \<open>p\<close> itself are created, directories that exist are left alone, and a regular file
  in the way raises (\<^verbatim>\<open>FileExistsError\<close> at \<open>p\<close> itself, \<^verbatim>\<open>NotADirectoryError\<close> above it).
\<close>

definition mkdir :: "path \<Rightarrow> world \<Rightarrow> exn + world" where
  "mkdir p w =
     (case find (is_file w) (lineage p) of
        Some q \<Rightarrow> Inl (if q = p then FileExistsError else NotADirectoryError)
      | None \<Rightarrow> Inr (w\<lparr>dirs := dirs w \<union> set (lineage p)\<rparr>))"

text \<open>\<^verbatim>\<open>p.write_text(s)\<close>: open for writing, truncating, and write \<open>s\<close>\<close>

definition write_text :: "path \<Rightarrow> string \<Rightarrow> world \<Rightarrow> exn + world" where
  "write_text p s w =
     (if is_dir w p then Inl IsADirectoryError
      else if is_file w (parent p) then Inl NotADirectoryError
      else if \<not> is_dir w (parent p) then Inl FileNotFoundError
      else Inr (w\<lparr>files := (files w)(p \<mapsto> s)\<rparr>))"

text \<open>\<^verbatim>\<open>print(s)\<close>: one more entry on standard output\<close>

definition print :: "string \<Rightarrow> world \<Rightarrow> world" where
  "print s w = w\<lparr>stdout := stdout w @ [s]\<rparr>"

section \<open>The generator\<close>

text \<open>The f-string that \<^verbatim>\<open>create_agent\<close> writes to the file\<close>

definition tools_yaml :: "template \<Rightarrow> string" where
  "tools_yaml t = join ''\<newline>'' (map (\<lambda>tool. ''  - '' @ tool) (tools t))"

definition content :: "string \<Rightarrow> template \<Rightarrow> string" where
  \<open>content name t =
     ''---\<newline>'' @
     ''name: '' @ name @ ''\<newline>'' @
     ''description: "TODO: Describe when to use this agent"\<newline>'' @
     ''tools:\<newline>'' @
     tools_yaml t @ ''\<newline>'' @
     ''model: '' @ model t @ ''\<newline>'' @
     ''---\<newline>'' @
     ''\<newline>'' @
     prompt t @ ''\<newline>''\<close>

definition create_agent :: "string \<Rightarrow> path \<Rightarrow> string \<Rightarrow> world \<Rightarrow> path outcome \<times> world" where
  "create_agent name path pattern w =
     (if \<not> validate_name name then
        (Exit 1,
         print (''Error: Agent name must be lowercase with hyphens only (got: '' @ name @ '')'') w)
      else
        case map_of TEMPLATES pattern of
          None \<Rightarrow>
            (Exit 1,
             print (''Available patterns: '' @ join '', '' (map fst TEMPLATES))
               (print (''Error: Unknown pattern '' @ [CHR 0x27] @ pattern @ [CHR 0x27]) w))
        | Some template \<Rightarrow>
            (case mkdir path w of
               Inl e \<Rightarrow> (Raise e, w)
             | Inr w1 \<Rightarrow>
                 let agent_file = truediv path (name @ ''.md'') in
                 if path_exists w1 agent_file then
                   (Exit 1,
                    print (''Error: Agent file already exists: '' @ str_path agent_file) w1)
                 else
                   (case write_text agent_file (content name template) w1 of
                      Inl e \<Rightarrow> (Raise e, w1)
                    | Inr w2 \<Rightarrow> (Return agent_file, w2))))"

text \<open>
  A call of \<^verbatim>\<open>create_agent\<close> ends in one of three ways: it returns the path of the file
  it has written, it leaves through \<^verbatim>\<open>sys.exit(1)\<close> after a diagnostic, or an exception of
  a file system operation passes through it. \<^verbatim>\<open>main\<close>, which parses the command line with
  \<^verbatim>\<open>argparse\<close> before it calls \<^verbatim>\<open>create_agent\<close> and reports afterwards, is not modelled.
\<close>

section \<open>The file format and the initial state of the examples\<close>

text \<open>
  The layout of a generated file as the documentation of the format gives it, line by
  line: the opening delimiter, the name, the placeholder description, the \<^verbatim>\<open>tools:\<close>
  key, one line per capability, the model and the closing delimiter; then one empty
  line, the prompt body and a final line break.
\<close>

definition frontmatter_lines :: "string \<Rightarrow> template \<Rightarrow> string list" where
  \<open>frontmatter_lines name t =
     [''---'',
      ''name: '' @ name,
      ''description: "TODO: Describe when to use this agent"'',
      ''tools:''] @
     map (\<lambda>c. ''  - '' @ c) (tools t) @
     [''model: '' @ model t,
      ''---'']\<close>

definition file_layout :: "string \<Rightarrow> template \<Rightarrow> string" where
  "file_layout name t =
     concat (map (\<lambda>l. l @ ''\<newline>'') (frontmatter_lines name t)) @
     ''\<newline>'' @ prompt t @ ''\<newline>''"

text \<open>A file system with nothing below the anchors, and nothing printed yet\<close>

definition fresh_world :: world where
  "fresh_world = \<lparr>dirs = {}, files = Map.empty, stdout = [], stderr = []\<rparr>"

text \<open>A file system where \<^verbatim>\<open>/tmp/agents/code-reviewer.md\<close> is already there\<close>

definition occupied_world :: world where
  "occupied_world =
     \<lparr>dirs = {Path True [''tmp''], Path True [''tmp'', ''agents'']},
      files = [Path True [''tmp'', ''agents'', ''code-reviewer.md''] \<mapsto> ''kept''],
      stdout = [], stderr = []\<rparr>"

section \<open>The name validator, characterised\<close>

text \<open>
  What \<open>validate_name\<close> accepts, in terms of \<open>name_pattern\<close>: the strings of the
  documented form, and those strings with one line break after them.
\<close>

lemma match_rest_iff:
  "match_rest s = (list_all name_char s \<or> (\<exists>t. list_all name_char t \<and> s = t @ [CHR ''\<newline>'']))"
proof (induction s)
  case Nil
  then show ?case by (simp add: dollar_def)
next
  case (Cons c cs)
  have nl: "\<not> name_char (CHR ''\<newline>'')"
    by (simp add: name_char_def lower_char_def digit_char_def)
  show ?case
  proof (cases "name_char c")
    case True
    then have "c \<noteq> CHR ''\<newline>''" using nl by auto
    with True Cons show ?thesis
      by (auto simp: dollar_def Cons_eq_append_conv)
  next
    case False
    then show ?thesis
      by (auto simp: dollar_def Cons_eq_append_conv)
  qed
qed

lemma validate_name_iff:
  "validate_name s = (name_pattern s \<or> (\<exists>t. name_pattern t \<and> s = t @ [CHR ''\<newline>'']))"
proof (cases s)
  case Nil
  then show ?thesis by (simp add: name_pattern_def)
next
  case (Cons c cs)
  show ?thesis
  proof
    assume "validate_name s"
    then have l: "lower_char c" and "match_rest cs" using Cons by auto
    then consider "list_all name_char cs" | t where "list_all name_char t" "cs = t @ [CHR ''\<newline>'']"
      using match_rest_iff by blast
    then show "name_pattern s \<or> (\<exists>t. name_pattern t \<and> s = t @ [CHR ''\<newline>''])"
    proof cases
      case 1
      then show ?thesis using l Cons by (simp add: name_pattern_def)
    next
      case 2
      then have "name_pattern (c # t)" "s = (c # t) @ [CHR ''\<newline>'']"
        using l Cons by (simp_all add: name_pattern_def)
      then show ?thesis by blast
    qed
  next
    assume "name_pattern s \<or> (\<exists>t. name_pattern t \<and> s = t @ [CHR ''\<newline>''])"
    then show "validate_name s"
    proof
      assume "name_pattern s"
      then show ?thesis using Cons by (simp add: name_pattern_def match_rest_iff)
    next
      assume "\<exists>t. name_pattern t \<and> s = t @ [CHR ''\<newline>'']"
      then obtain t where t: "name_pattern t" "s = t @ [CHR ''\<newline>'']" by blast
      then obtain d ds where "t = d # ds" by (cases t) (auto simp: name_pattern_def)
      with t Cons show ?thesis by (auto simp: name_pattern_def match_rest_iff)
    qed
  qed
qed

section \<open>Paths, directories and the file system invariant\<close>

text \<open>
  Facts about \<open>lineage\<close> and \<open>mkdir\<close>, the two ways a call of \<open>create_agent\<close> with a
  valid name and a known pattern ends when \<open>mkdir\<close> succeeds, and the invariant:
  \<open>create_agent\<close> takes a well-formed file system to a well-formed one.
\<close>

lemma path_collapse: "Path (absolute p) (parts p) = p"
  by (cases p) simp

lemma lineage_member:
  "q \<in> set (lineage p) \<longleftrightarrow> (\<exists>n. 1 \<le> n \<and> n \<le> length (parts p) \<and> q = Path (absolute p) (take n (parts p)))"
  by (auto simp: lineage_def)

lemma self_in_lineage: "parts p \<noteq> [] \<Longrightarrow> p \<in> set (lineage p)"
proof -
  assume "parts p \<noteq> []"
  then have "1 \<le> length (parts p)" by (cases "parts p") auto
  moreover have "p = Path (absolute p) (take (length (parts p)) (parts p))"
    by (simp add: path_collapse)
  ultimately show ?thesis unfolding lineage_member by blast
qed

lemma lineage_parts:
  "q \<in> set (lineage p) \<Longrightarrow> parts q \<noteq> [] \<and> length (parts q) \<le> length (parts p)"
  by (auto simp: lineage_member)

lemma target_not_in_lineage: "truediv p seg \<notin> set (lineage p)"
proof
  assume "truediv p seg \<in> set (lineage p)"
  then have "length (parts (truediv p seg)) \<le> length (parts p)"
    using lineage_parts by blast
  then show False by (simp add: truediv_def)
qed

lemma parent_truediv: "parent (truediv p seg) = p"
  by (simp add: truediv_def parent_def path_collapse)

lemma parts_truediv: "parts (truediv p seg) \<noteq> []"
  by (simp add: truediv_def)

lemma lineage_snoc: "parts p \<noteq> [] \<Longrightarrow> lineage p = lineage (parent p) @ [p]"
proof -
  assume ne: "parts p \<noteq> []"
  then obtain n where n: "length (parts p) = Suc n" by (cases "parts p") auto
  have bl: "butlast (parts p) = take n (parts p)"
    using n by (simp add: butlast_conv_take)
  have "lineage (parent p) = map (\<lambda>k. Path (absolute p) (take k (take n (parts p)))) [1..<Suc n]"
    using n by (simp add: lineage_def parent_def bl)
  also have "\<dots> = map (\<lambda>k. Path (absolute p) (take k (parts p))) [1..<Suc n]"
    by (intro map_cong) (auto simp: min_def)
  finally have up: "lineage (parent p) = map (\<lambda>k. Path (absolute p) (take k (parts p))) [1..<Suc n]" .
  have top: "Path (absolute p) (take (Suc n) (parts p)) = p"
    using n path_collapse[of p] by simp
  have "lineage p = map (\<lambda>k. Path (absolute p) (take k (parts p))) ([1..<Suc n] @ [Suc n])"
    using n by (simp add: lineage_def)
  then show ?thesis using up top by simp
qed

lemma fs_ok_lineage: "fs_ok w \<Longrightarrow> is_dir w p \<Longrightarrow> set (lineage p) \<subseteq> dirs w"
proof (induction "length (parts p)" arbitrary: p)
  case 0
  then show ?case by (simp add: lineage_def)
next
  case (Suc n)
  then have ne: "parts p \<noteq> []" by auto
  with Suc.prems have pd: "p \<in> dirs w" by (simp add: is_dir_def)
  with Suc.prems have "is_dir w (parent p)" by (simp add: fs_ok_def)
  moreover have "n = length (parts (parent p))" using Suc.hyps(2) by (simp add: parent_def)
  ultimately have "set (lineage (parent p)) \<subseteq> dirs w" using Suc.hyps(1) Suc.prems(1) by blast
  with pd show ?case by (simp add: lineage_snoc[OF ne])
qed

lemma fs_ok_no_file_in_lineage:
  "fs_ok w \<Longrightarrow> is_dir w p \<Longrightarrow> \<forall>q \<in> set (lineage p). \<not> is_file w q"
proof
  fix q assume ok: "fs_ok w" and d: "is_dir w p" and q: "q \<in> set (lineage p)"
  then have "q \<in> dirs w" using fs_ok_lineage by blast
  then have "is_dir w q" by (simp add: is_dir_def)
  with ok show "\<not> is_file w q" by (auto simp: fs_ok_def is_file_def)
qed

lemma mkdir_ok:
  "\<forall>q \<in> set (lineage p). \<not> is_file w q \<Longrightarrow> mkdir p w = Inr (w\<lparr>dirs := dirs w \<union> set (lineage p)\<rparr>)"
proof -
  assume "\<forall>q \<in> set (lineage p). \<not> is_file w q"
  then have "find (is_file w) (lineage p) = None" unfolding find_None_iff by blast
  then show ?thesis by (simp add: mkdir_def)
qed


lemma mkdir_existing: "fs_ok w \<Longrightarrow> is_dir w p \<Longrightarrow> mkdir p w = Inr w"
proof -
  assume ok: "fs_ok w" and d: "is_dir w p"
  then have "dirs w \<union> set (lineage p) = dirs w" using fs_ok_lineage by blast
  with ok d show ?thesis
    using mkdir_ok[OF fs_ok_no_file_in_lineage[OF ok d]] by simp
qed

lemma fs_ok_parent_of_existing:
  "fs_ok w \<Longrightarrow> path_exists w p \<Longrightarrow> is_dir w (parent p)"
  by (auto simp: fs_ok_def path_exists_def is_dir_def is_file_def parent_def)

lemma fs_ok_anchor_not_file: "fs_ok w \<Longrightarrow> parts p = [] \<Longrightarrow> \<not> is_file w p"
  by (auto simp: fs_ok_def is_file_def is_dir_def)

lemma is_dir_after_mkdir: "is_dir (w\<lparr>dirs := dirs w \<union> set (lineage p)\<rparr>) p"
  using self_in_lineage[of p] by (auto simp: is_dir_def)

lemma valid_segment: "validate_name n \<Longrightarrow> CHR ''/'' \<notin> set (n @ ''.md'')"
proof -
  have rest: "match_rest s \<Longrightarrow> CHR ''/'' \<notin> set s" for s
    by (induction s) (auto simp: dollar_def name_char_def lower_char_def digit_char_def)
  assume "validate_name n"
  then show ?thesis
    by (cases n) (auto simp: lower_char_def dest: rest)
qed

lemma create_agent_success:
  assumes v: "validate_name name" and t: "map_of TEMPLATES pattern = Some t"
    and ok: "fs_ok w" and clear: "\<forall>q \<in> set (lineage path). \<not> is_file w q"
    and fresh: "\<not> path_exists w (truediv path (name @ ''.md''))"
  shows "create_agent name path pattern w =
           (Return (truediv path (name @ ''.md'')),
            w\<lparr>dirs := dirs w \<union> set (lineage path),
              files := (files w)(truediv path (name @ ''.md'') \<mapsto> content name t)\<rparr>)"
proof -
  let ?f = "truediv path (name @ ''.md'')"
  let ?w1 = "w\<lparr>dirs := dirs w \<union> set (lineage path)\<rparr>"
  have m: "mkdir path w = Inr ?w1" using clear by (rule mkdir_ok)
  have nd: "\<not> is_dir ?w1 ?f"
    using fresh target_not_in_lineage[of path] by (auto simp: is_dir_def path_exists_def)
  have nf: "\<not> is_file ?w1 ?f" using fresh by (simp add: is_file_def path_exists_def)
  have pf: "\<not> is_file ?w1 path"
  proof (cases "parts path = []")
    case True
    then show ?thesis using fs_ok_anchor_not_file[OF ok] by (simp add: is_file_def)
  next
    case False
    then show ?thesis using clear self_in_lineage[of path] by (auto simp: is_file_def)
  qed
  have wr: "write_text ?f (content name t) ?w1 = Inr (?w1\<lparr>files := (files ?w1)(?f \<mapsto> content name t)\<rparr>)"
    using nd pf is_dir_after_mkdir[of w path] by (simp add: write_text_def parent_truediv)
  show ?thesis
    using v t m nd nf wr by (simp add: create_agent_def path_exists_def Let_def)
qed

lemma create_agent_exists:
  assumes v: "validate_name name" and t: "map_of TEMPLATES pattern = Some t"
    and ok: "fs_ok w" and there: "path_exists w (truediv path (name @ ''.md''))"
  shows "create_agent name path pattern w =
           (Exit 1, print (''Error: Agent file already exists: '' @ str_path (truediv path (name @ ''.md''))) w)"
proof -
  have d: "is_dir w path" using fs_ok_parent_of_existing[OF ok there] by (simp add: parent_truediv)
  have "mkdir path w = Inr w" using ok d by (rule mkdir_existing)
  then show ?thesis using v t there by (simp add: create_agent_def Let_def)
qed

lemma lineage_parent_closed:
  "q \<in> set (lineage p) \<Longrightarrow> parts (parent q) = [] \<or> parent q \<in> set (lineage p)"
proof -
  assume "q \<in> set (lineage p)"
  then obtain n where n: "1 \<le> n" "n \<le> length (parts p)" "q = Path (absolute p) (take n (parts p))"
    unfolding lineage_member by blast
  then have pq: "parent q = Path (absolute p) (take (n - 1) (parts p))"
    by (simp add: parent_def butlast_take)
  show ?thesis
  proof (cases "n = 1")
    case True
    then show ?thesis using pq by simp
  next
    case False
    then have "1 \<le> n - 1" "n - 1 \<le> length (parts p)" using n by auto
    then show ?thesis using pq unfolding lineage_member by blast
  qed
qed

lemma fs_ok_print: "fs_ok (print s w) = fs_ok w"
  by (simp add: fs_ok_def print_def is_dir_def)

lemma fs_ok_mkdir:
  assumes ok: "fs_ok w" and m: "mkdir p w = Inr w1"
  shows "fs_ok w1"
proof -
  have none: "find (is_file w) (lineage p) = None" and w1: "w1 = w\<lparr>dirs := dirs w \<union> set (lineage p)\<rparr>"
    using m by (auto simp: mkdir_def split: option.splits)
  then have clear: "\<forall>q \<in> set (lineage p). \<not> is_file w q" unfolding find_None_iff by blast
  have "is_dir w1 (parent q)" if "q \<in> dirs w1 \<union> dom (files w1)" for q
  proof (cases "q \<in> set (lineage p)")
    case True
    then show ?thesis using lineage_parent_closed[of q p] by (auto simp: is_dir_def w1)
  next
    case False
    with that have "q \<in> dirs w \<union> dom (files w)" by (auto simp: w1)
    with ok have "is_dir w (parent q)" by (simp add: fs_ok_def)
    then show ?thesis by (auto simp: is_dir_def w1)
  qed
  moreover have "\<not> is_dir w1 q" if "q \<in> dom (files w1)" for q
  proof -
    from that have f: "is_file w q" by (auto simp: w1 is_file_def)
    with ok have "\<not> is_dir w q" by (auto simp: fs_ok_def is_file_def)
    moreover have "q \<notin> set (lineage p)" using f clear by blast
    ultimately show ?thesis by (auto simp: is_dir_def w1)
  qed
  ultimately show ?thesis unfolding fs_ok_def by blast
qed

lemma fs_ok_write_text:
  assumes ok: "fs_ok w" and wr: "write_text p s w = Inr w1"
  shows "fs_ok w1"
proof -
  from wr have nd: "\<not> is_dir w p" and pd: "is_dir w (parent p)"
    and w1: "w1 = w\<lparr>files := (files w)(p \<mapsto> s)\<rparr>"
    by (auto simp: write_text_def split: if_splits)
  show ?thesis
    using ok nd pd by (auto simp: fs_ok_def w1 is_dir_def)
qed

lemma fs_ok_create_agent:
  assumes ok: "fs_ok w"
  shows "fs_ok (snd (create_agent name path pattern w))"
proof (cases "validate_name name")
  case False
  then show ?thesis using ok by (simp add: create_agent_def fs_ok_print)
next
  case v: True
  show ?thesis
  proof (cases "map_of TEMPLATES pattern")
    case None
    then show ?thesis using ok v by (simp add: create_agent_def fs_ok_print)
  next
    case (Some t)
    show ?thesis
    proof (cases "mkdir path w")
      case (Inl e)
      then show ?thesis using ok v Some by (simp add: create_agent_def)
    next
      case (Inr w1)
      then have ok1: "fs_ok w1" using ok fs_ok_mkdir by blast
      show ?thesis
      proof (cases "write_text (truediv path (name @ ''.md'')) (content name t) w1")
        case (Inl e)
        then show ?thesis using ok1 v Some Inr by (simp add: create_agent_def Let_def fs_ok_print)
      next
        case w2: (Inr w2)
        then have "fs_ok w2" using ok1 fs_ok_write_text by blast
        then show ?thesis using ok1 v Some Inr w2 by (simp add: create_agent_def Let_def fs_ok_print)
      qed
    qed
  qed
qed

lemma create_agent_keeps_files:
  assumes "files w q = Some c"
  shows "files (snd (create_agent name path pattern w)) q = Some c"
proof -
  have mk: "files w1 = files w" if "mkdir p w = Inr w1" for p w1
    using that by (auto simp: mkdir_def split: option.splits)
  have wr: "files w2 q = Some c"
    if "write_text f s w1 = Inr w2" "\<not> path_exists w1 f" "files w1 q = Some c" for f s w1 w2
  proof -
    from that(2,3) have "f \<noteq> q" by (auto simp: path_exists_def is_file_def)
    with that(1,3) show ?thesis by (auto simp: write_text_def split: if_splits)
  qed
  show ?thesis
    using assms
    by (auto simp: create_agent_def Let_def print_def mk
        split: option.splits sum.splits dest!: wr)
qed

section \<open>The outcomes of \<^verbatim>\<open>create_agent\<close>\<close>

text \<open>
  The f-string against the line-by-line layout, the lookup in the registry, and what
  each of the three ways of leaving \<open>create_agent\<close> says about the state.
\<close>

lemma join_lines: "xs \<noteq> [] \<Longrightarrow> join sep xs @ sep = concat (map (\<lambda>x. x @ sep) xs)"
  by (induction sep xs rule: join.induct) simp_all

lemma content_layout: "tools t \<noteq> [] \<Longrightarrow> content name t = file_layout name t"
proof -
  assume "tools t \<noteq> []"
  then have "tools_yaml t @ ''\<newline>'' = concat (map (\<lambda>l. l @ ''\<newline>'') (map (\<lambda>c. ''  - '' @ c) (tools t)))"
    unfolding tools_yaml_def by (intro join_lines) simp
  then show ?thesis
    by (simp add: content_def file_layout_def frontmatter_lines_def)
qed

lemma registry_tools: "map_of TEMPLATES pattern = Some t \<Longrightarrow> tools t \<noteq> []"
  by (auto simp: TEMPLATES_def split: if_splits)

lemma registry_lookup:
  "(map_of TEMPLATES p \<noteq> None) =
     (p \<in> {''researcher'', ''reviewer'', ''specialist'', ''builder'', ''quick'',
            ''orchestrator'', ''planner''})"
  by (simp add: TEMPLATES_def)

lemma create_agent_return:
  assumes "create_agent name path pattern w = (Return f, w1)"
  shows "\<exists>t. validate_name name \<and> map_of TEMPLATES pattern = Some t \<and>
             f = truediv path (name @ ''.md'') \<and> \<not> path_exists w f \<and>
             files w1 = (files w)(f \<mapsto> content name t) \<and>
             dirs w1 = dirs w \<union> set (lineage path) \<and>
             stdout w1 = stdout w \<and> stderr w1 = stderr w"
proof -
  from assms have v: "validate_name name"
    by (auto simp: create_agent_def split: if_splits)
  from assms v obtain t where t: "map_of TEMPLATES pattern = Some t"
    by (cases "map_of TEMPLATES pattern") (auto simp: create_agent_def)
  from assms v t obtain wm where m: "mkdir path w = Inr wm"
    by (cases "mkdir path w") (auto simp: create_agent_def)
  then have wm: "wm = w\<lparr>dirs := dirs w \<union> set (lineage path)\<rparr>"
    by (auto simp: mkdir_def split: option.splits)
  let ?f = "truediv path (name @ ''.md'')"
  from assms v t m have ne: "\<not> path_exists wm ?f"
    by (auto simp: create_agent_def Let_def split: if_splits)
  with assms v t m obtain w2 where
    wr: "write_text ?f (content name t) wm = Inr w2" and r: "f = ?f" "w1 = w2"
    by (cases "write_text ?f (content name t) wm") (auto simp: create_agent_def Let_def)
  from wr have w2: "w2 = wm\<lparr>files := (files wm)(?f \<mapsto> content name t)\<rparr>"
    by (auto simp: write_text_def split: if_splits)
  have "\<not> path_exists w ?f"
    using ne by (auto simp: path_exists_def is_dir_def is_file_def wm)
  then show ?thesis using v t r w2 wm by auto
qed



section \<open>Concrete names, paths and states\<close>

lemma valid_code_reviewer: "validate_name ''code-reviewer''"
  by (simp add: lower_char_def digit_char_def name_char_def dollar_def)

lemma valid_quick_search: "validate_name ''quick-search''"
  by (simp add: lower_char_def digit_char_def name_char_def dollar_def)

lemma fs_ok_fresh: "fs_ok fresh_world"
  by (simp add: fs_ok_def fresh_world_def)

lemma fs_ok_occupied: "fs_ok occupied_world"
  by (simp add: fs_ok_def occupied_world_def is_dir_def parent_def)

lemma lineage_tmp_agents:
  "lineage (Path True [''tmp'', ''agents'']) = [Path True [''tmp''], Path True [''tmp'', ''agents'']]"
  by (simp add: lineage_def upt_rec)

lemma lineage_agents: "lineage (Path False [''agents'']) = [Path False [''agents'']]"
  by (simp add: lineage_def upt_rec)

lemma lineage_abc:
  "lineage (Path False [''a'', ''b'', ''c'']) =
     [Path False [''a''], Path False [''a'', ''b''], Path False [''a'', ''b'', ''c'']]"
  by (simp add: lineage_def upt_rec)

lemma quick_search_created:
  "create_agent ''quick-search'' (Path False [''agents'']) ''quick'' fresh_world =
     (Return (Path False [''agents'', ''quick-search.md'']),
      \<lparr>dirs = {Path False [''agents'']},
       files = [Path False [''agents'', ''quick-search.md''] \<mapsto>
                content ''quick-search''
                  \<lparr>tools = [''Read'', ''Grep'', ''Glob''], model = ''haiku'', prompt = quick_prompt\<rparr>],
       stdout = [], stderr = []\<rparr>)"
  by (simp add: create_agent_def TEMPLATES_def mkdir_def write_text_def parent_def
      lineage_agents is_file_def path_exists_def is_dir_def truediv_def fresh_world_def
      lower_char_def digit_char_def name_char_def dollar_def Let_def)

lemma occupied_exists:
  "create_agent ''code-reviewer'' (Path True [''tmp'', ''agents'']) ''reviewer'' occupied_world =
     (Exit 1, occupied_world
        \<lparr>stdout := [''Error: Agent file already exists: /tmp/agents/code-reviewer.md'']\<rparr>)"
  by (simp add: create_agent_def TEMPLATES_def mkdir_def lineage_tmp_agents is_file_def
      path_exists_def is_dir_def truediv_def occupied_world_def print_def str_path_def
      lower_char_def digit_char_def name_char_def dollar_def Let_def insert_commute)

lemma prompts_nonempty:
  "researcher_prompt \<noteq> []" "reviewer_prompt \<noteq> []" "specialist_prompt \<noteq> []"
  "builder_prompt \<noteq> []" "quick_prompt \<noteq> []" "orchestrator_prompt \<noteq> []" "planner_prompt \<noteq> []"
  by (simp_all add: researcher_prompt_def reviewer_prompt_def specialist_prompt_def
      builder_prompt_def quick_prompt_def orchestrator_prompt_def planner_prompt_def)

section \<open>The claims\<close>

text \<open>
  \<^bold>\<open>C1\<close>. The claim: \<^verbatim>\<open>validate_name\<close> accepts a name exactly when it is a lowercase
  letter followed only by lowercase letters, digits and hyphens, and rejects every
  other string, strings with whitespace among them, without trimming. The code breaks
  it: a name that ends in one line break passes, as \<open>''abc''\<close> followed by a line break
  does here, although it is not of that form, and \<^verbatim>\<open>create_agent\<close> goes on to write a
  file for it. Lemma \<open>validate_name_iff\<close> above gives the whole set of accepted names.
\<close>

theorem validate_name_accepts_trailing_newline:
  "validate_name ''abc\<newline>'' \<and> \<not> name_pattern ''abc\<newline>'' \<and>
   fst (create_agent ''abc\<newline>'' (Path False [''agents'']) ''quick'' fresh_world) =
     Return (Path False [''agents'', ''abc\<newline>.md''])"
  by (simp add: name_pattern_def lower_char_def digit_char_def name_char_def dollar_def
      create_agent_def TEMPLATES_def mkdir_def write_text_def parent_def lineage_agents
      is_file_def path_exists_def is_dir_def truediv_def fresh_world_def Let_def)

text \<open>
  \<^bold>\<open>C2\<close>. For a valid name and a pattern of the registry, in a well-formed file system
  where the target file is not there yet and no regular file stands in the way of the
  directory: the first call returns the path \<^verbatim>\<open>directory/name.md\<close>; the second call with
  the same arguments leaves through \<^verbatim>\<open>sys.exit(1)\<close> after the line that the agent file
  already exists, and changes neither a file nor a directory. Whatever the arguments
  and the state, no call changes the content of a file that is already there.
\<close>

theorem create_agent_twice:
  assumes v: "validate_name name" and p: "map_of TEMPLATES pattern \<noteq> None"
    and ok: "fs_ok w" and clear: "\<forall>q \<in> set (lineage path). \<not> is_file w q"
    and fresh: "\<not> path_exists w (truediv path (name @ ''.md''))"
  shows "\<exists>w1 w2.
           create_agent name path pattern w = (Return (truediv path (name @ ''.md'')), w1) \<and>
           create_agent name path pattern w1 = (Exit 1, w2) \<and>
           stdout w2 = stdout w1 @
             [''Error: Agent file already exists: '' @ str_path (truediv path (name @ ''.md''))] \<and>
           files w2 = files w1 \<and> dirs w2 = dirs w1 \<and>
           (\<forall>n' p' pat' v q c. files v q = Some c \<longrightarrow>
              files (snd (create_agent n' p' pat' v)) q = Some c)"
proof -
  let ?f = "truediv path (name @ ''.md'')"
  from p obtain t where t: "map_of TEMPLATES pattern = Some t" by blast
  let ?w1 = "w\<lparr>dirs := dirs w \<union> set (lineage path), files := (files w)(?f \<mapsto> content name t)\<rparr>"
  have first: "create_agent name path pattern w = (Return ?f, ?w1)"
    using v t ok clear fresh by (rule create_agent_success)
  have "fs_ok (snd (create_agent name path pattern w))" using ok by (rule fs_ok_create_agent)
  then have ok1: "fs_ok ?w1" using first by simp
  have there: "path_exists ?w1 ?f" by (simp add: path_exists_def is_file_def)
  have second: "create_agent name path pattern ?w1 =
      (Exit 1, print (''Error: Agent file already exists: '' @ str_path ?f) ?w1)"
    using v t ok1 there by (rule create_agent_exists)
  have "\<forall>n' p' pat' v q c. files v q = Some c \<longrightarrow>
          files (snd (create_agent n' p' pat' v)) q = Some c"
    using create_agent_keeps_files by blast
  with first second show ?thesis by (simp add: print_def)
qed

theorem create_agent_twice_witness:
  "validate_name ''code-reviewer'' \<and> map_of TEMPLATES ''quick'' \<noteq> None \<and> fs_ok fresh_world \<and>
   \<not> is_file fresh_world (Path True [''tmp'']) \<and>
   \<not> is_file fresh_world (Path True [''tmp'', ''agents'']) \<and>
   \<not> path_exists fresh_world (truediv (Path True [''tmp'', ''agents'']) (''code-reviewer'' @ ''.md'')) \<and>
   (\<exists>w1 w2.
      create_agent ''code-reviewer'' (Path True [''tmp'', ''agents'']) ''quick'' fresh_world =
        (Return (Path True [''tmp'', ''agents'', ''code-reviewer.md'']), w1) \<and>
      create_agent ''code-reviewer'' (Path True [''tmp'', ''agents'']) ''quick'' w1 = (Exit 1, w2) \<and>
      stdout w2 = stdout w1 @ [''Error: Agent file already exists: /tmp/agents/code-reviewer.md''] \<and>
      files w2 = files w1 \<and> dirs w2 = dirs w1)"
proof -
  have h1: "validate_name ''code-reviewer''" by (rule valid_code_reviewer)
  have h2: "map_of TEMPLATES ''quick'' \<noteq> None" by (simp add: TEMPLATES_def)
  have h3: "fs_ok fresh_world" by (rule fs_ok_fresh)
  have h4: "\<forall>q \<in> set (lineage (Path True [''tmp'', ''agents''])). \<not> is_file fresh_world q"
    by (simp add: is_file_def fresh_world_def)
  have h4': "\<not> is_file fresh_world (Path True [''tmp'']) \<and>
             \<not> is_file fresh_world (Path True [''tmp'', ''agents''])"
    by (simp add: is_file_def fresh_world_def)
  have h5: "\<not> path_exists fresh_world (truediv (Path True [''tmp'', ''agents'']) (''code-reviewer'' @ ''.md''))"
    by (simp add: path_exists_def is_dir_def is_file_def truediv_def fresh_world_def)
  from create_agent_twice[OF h1 h2 h3 h4 h5] obtain w1 w2 where
    "create_agent ''code-reviewer'' (Path True [''tmp'', ''agents'']) ''quick'' fresh_world =
       (Return (truediv (Path True [''tmp'', ''agents'']) (''code-reviewer'' @ ''.md'')), w1)"
    "create_agent ''code-reviewer'' (Path True [''tmp'', ''agents'']) ''quick'' w1 = (Exit 1, w2)"
    "stdout w2 = stdout w1 @
       [''Error: Agent file already exists: '' @
        str_path (truediv (Path True [''tmp'', ''agents'']) (''code-reviewer'' @ ''.md''))]"
    "files w2 = files w1" "dirs w2 = dirs w1"
    by blast
  then have "\<exists>w1 w2.
      create_agent ''code-reviewer'' (Path True [''tmp'', ''agents'']) ''quick'' fresh_world =
        (Return (Path True [''tmp'', ''agents'', ''code-reviewer.md'']), w1) \<and>
      create_agent ''code-reviewer'' (Path True [''tmp'', ''agents'']) ''quick'' w1 = (Exit 1, w2) \<and>
      stdout w2 = stdout w1 @ [''Error: Agent file already exists: /tmp/agents/code-reviewer.md''] \<and>
      files w2 = files w1 \<and> dirs w2 = dirs w1"
    by (simp add: truediv_def str_path_def)
  with h1 h2 h3 h4' h5 show ?thesis by blast
qed

text \<open>
  \<^bold>\<open>C3\<close>. For each of the seven pattern names, under the conditions of the first call
  above, \<^verbatim>\<open>create_agent\<close> writes a file at \<^verbatim>\<open>directory/name.md\<close> whose frontmatter
  carries the name, the tools of the pattern's registry entry in their order and its
  model, and whose body is the entry's prompt. The instance below is the call
  \<^verbatim>\<open>create_agent("code-reviewer", "/tmp/agents", "reviewer")\<close> on an empty file system.
\<close>

theorem create_agent_renders_registry_entry:
  assumes pat: "pattern \<in> {''researcher'', ''reviewer'', ''specialist'', ''builder'', ''quick'',
                            ''orchestrator'', ''planner''}"
    and v: "validate_name name"
    and ok: "fs_ok w" and clear: "\<forall>q \<in> set (lineage path). \<not> is_file w q"
    and fresh: "\<not> path_exists w (truediv path (name @ ''.md''))"
  shows \<open>\<exists>t w1.
           map_of TEMPLATES pattern = Some t \<and>
           create_agent name path pattern w = (Return (truediv path (name @ ''.md'')), w1) \<and>
           files w1 (truediv path (name @ ''.md'')) =
             Some (''---\<newline>'' @
                   ''name: '' @ name @ ''\<newline>'' @
                   ''description: "TODO: Describe when to use this agent"\<newline>'' @
                   ''tools:\<newline>'' @
                   concat (map (\<lambda>tool. ''  - '' @ tool @ ''\<newline>'') (tools t)) @
                   ''model: '' @ model t @ ''\<newline>'' @
                   ''---\<newline>'' @
                   ''\<newline>'' @
                   prompt t @
                   ''\<newline>'')\<close>
proof -
  from pat have "map_of TEMPLATES pattern \<noteq> None" by (simp only: registry_lookup)
  then obtain t where t: "map_of TEMPLATES pattern = Some t" by blast
  let ?f = "truediv path (name @ ''.md'')"
  have c: "create_agent name path pattern w =
      (Return ?f, w\<lparr>dirs := dirs w \<union> set (lineage path), files := (files w)(?f \<mapsto> content name t)\<rparr>)"
    using v t ok clear fresh by (rule create_agent_success)
  have "tools t \<noteq> []" using t by (rule registry_tools)
  then have "content name t = file_layout name t" by (rule content_layout)
  then have "content name t =
      ''---\<newline>'' @ ''name: '' @ name @ ''\<newline>'' @
      ''description: \"TODO: Describe when to use this agent\"\<newline>'' @
      ''tools:\<newline>'' @
      concat (map (\<lambda>tool. ''  - '' @ tool @ ''\<newline>'') (tools t)) @
      ''model: '' @ model t @ ''\<newline>'' @ ''---\<newline>'' @ ''\<newline>'' @ prompt t @ ''\<newline>''"
    by (simp add: file_layout_def frontmatter_lines_def comp_def)
  with t c show ?thesis by simp
qed

theorem create_agent_renders_registry_entry_witness:
  \<open>create_agent ''code-reviewer'' (Path True [''tmp'', ''agents'']) ''reviewer'' fresh_world =
     (Return (Path True [''tmp'', ''agents'', ''code-reviewer.md'']),
      \<lparr>dirs = {Path True [''tmp''], Path True [''tmp'', ''agents'']},
       files = [Path True [''tmp'', ''agents'', ''code-reviewer.md''] \<mapsto>
         ''---\<newline>'' @
         ''name: code-reviewer\<newline>'' @
         ''description: "TODO: Describe when to use this agent"\<newline>'' @
         ''tools:\<newline>'' @
         ''  - Read\<newline>'' @
         ''  - Grep\<newline>'' @
         ''  - Glob\<newline>'' @
         ''  - Bash\<newline>'' @
         ''model: sonnet\<newline>'' @
         ''---\<newline>'' @
         ''\<newline>'' @
         reviewer_prompt @
         ''\<newline>''],
       stdout = [], stderr = []\<rparr>) \<and>
   str_path (Path True [''tmp'', ''agents'', ''code-reviewer.md'']) = ''/tmp/agents/code-reviewer.md''\<close>
proof -
  have h0: "''reviewer'' \<in> {''researcher'', ''reviewer'', ''specialist'', ''builder'', ''quick'',
                            ''orchestrator'', ''planner''}" by simp
  have h1: "validate_name ''code-reviewer''" by (rule valid_code_reviewer)
  have h3: "fs_ok fresh_world" by (rule fs_ok_fresh)
  have h4: "\<forall>q \<in> set (lineage (Path True [''tmp'', ''agents''])). \<not> is_file fresh_world q"
    by (simp add: is_file_def fresh_world_def)
  have h5: "\<not> path_exists fresh_world (truediv (Path True [''tmp'', ''agents'']) (''code-reviewer'' @ ''.md''))"
    by (simp add: path_exists_def is_dir_def is_file_def truediv_def fresh_world_def)
  from create_agent_renders_registry_entry[OF h0 h1 h3 h4 h5] obtain t w1 where
    t: "map_of TEMPLATES ''reviewer'' = Some t" and
    r: "create_agent ''code-reviewer'' (Path True [''tmp'', ''agents'']) ''reviewer'' fresh_world =
          (Return (truediv (Path True [''tmp'', ''agents'']) (''code-reviewer'' @ ''.md'')), w1)"
    by blast
  from r have "fst (create_agent ''code-reviewer'' (Path True [''tmp'', ''agents'']) ''reviewer'' fresh_world)
      = Return (Path True [''tmp'', ''agents'', ''code-reviewer.md''])"
    by (simp add: truediv_def)
  moreover have "snd (create_agent ''code-reviewer'' (Path True [''tmp'', ''agents'']) ''reviewer'' fresh_world) =
      \<lparr>dirs = {Path True [''tmp''], Path True [''tmp'', ''agents'']},
       files = [Path True [''tmp'', ''agents'', ''code-reviewer.md''] \<mapsto>
         ''---\<newline>'' @
         ''name: code-reviewer\<newline>'' @
         ''description: \"TODO: Describe when to use this agent\"\<newline>'' @
         ''tools:\<newline>'' @
         ''  - Read\<newline>'' @
         ''  - Grep\<newline>'' @
         ''  - Glob\<newline>'' @
         ''  - Bash\<newline>'' @
         ''model: sonnet\<newline>'' @
         ''---\<newline>'' @
         ''\<newline>'' @
         reviewer_prompt @
         ''\<newline>''],
       stdout = [], stderr = []\<rparr>"
    by (simp add: create_agent_def TEMPLATES_def mkdir_def write_text_def parent_def
        lineage_tmp_agents is_file_def path_exists_def is_dir_def truediv_def fresh_world_def
        insert_commute lower_char_def digit_char_def name_char_def dollar_def Let_def
        content_def tools_yaml_def)
  ultimately show ?thesis by (simp add: prod_eq_iff str_path_def)
qed

text \<open>
  \<^bold>\<open>C4\<close>. Whenever \<^verbatim>\<open>create_agent\<close> returns a path, it is \<^verbatim>\<open>directory/name.md\<close> and the
  file there, the f-string \<open>content\<close> for the name and the pattern's template, is the fixed
  layout \<open>file_layout\<close>: the delimiter line, the name line, the placeholder description,
  \<^verbatim>\<open>tools:\<close>, one indented hyphenated line per capability in the order of the registry,
  the model line, the delimiter line, one empty line, the prompt body and a final line
  break.
\<close>

theorem generated_file_layout:
  assumes "create_agent name path pattern w = (Return f, w1)"
  shows "\<exists>t. map_of TEMPLATES pattern = Some t \<and> content name t = file_layout name t \<and>
             f = truediv path (name @ ''.md'') \<and> files w1 f = Some (file_layout name t)"
proof -
  from create_agent_return[OF assms] obtain t where
    t: "map_of TEMPLATES pattern = Some t" and f: "files w1 = (files w)(f \<mapsto> content name t)"
    and p: "f = truediv path (name @ ''.md'')"
    by blast
  have "tools t \<noteq> []" using t by (rule registry_tools)
  then have "content name t = file_layout name t" by (rule content_layout)
  with t f p show ?thesis by simp
qed

theorem generated_file_layout_witness:
  \<open>\<exists>w1. create_agent ''quick-search'' (Path False [''agents'']) ''quick'' fresh_world =
           (Return (Path False [''agents'', ''quick-search.md'']), w1) \<and>
         files w1 (Path False [''agents'', ''quick-search.md'']) =
           Some (''---\<newline>'' @
                 ''name: quick-search\<newline>'' @
                 ''description: "TODO: Describe when to use this agent"\<newline>'' @
                 ''tools:\<newline>'' @
                 ''  - Read\<newline>'' @
                 ''  - Grep\<newline>'' @
                 ''  - Glob\<newline>'' @
                 ''model: haiku\<newline>'' @
                 ''---\<newline>'' @
                 ''\<newline>'' @
                 ''You are a fast, efficient assistant for quick tasks.\<newline>'' @
                 ''\<newline>'' @
                 ''## Focus\<newline>'' @
                 ''\<newline>'' @
                 ''- Concise answers\<newline>'' @
                 ''- Direct solutions\<newline>'' @
                 ''- Fast turnaround\<newline>'' @
                 ''- No over-explanation\<newline>'' @
                 ''\<newline>'' @
                 ''Keep responses brief. Get to the point immediately.\<newline>'')\<close>
proof -
  from generated_file_layout[OF quick_search_created] obtain t where
    t: "map_of TEMPLATES ''quick'' = Some t" and
    f: "files \<lparr>dirs = {Path False [''agents'']},
               files = [Path False [''agents'', ''quick-search.md''] \<mapsto>
                content ''quick-search''
                  \<lparr>tools = [''Read'', ''Grep'', ''Glob''], model = ''haiku'', prompt = quick_prompt\<rparr>],
               stdout = [], stderr = []\<rparr> (Path False [''agents'', ''quick-search.md''])
        = Some (file_layout ''quick-search'' t)"
    by blast
  from t have "t = \<lparr>tools = [''Read'', ''Grep'', ''Glob''], model = ''haiku'', prompt = quick_prompt\<rparr>"
    by (simp add: TEMPLATES_def)
  with f show ?thesis
    unfolding quick_search_created
    by (simp add: file_layout_def frontmatter_lines_def quick_prompt_def)
qed

text \<open>
  \<^bold>\<open>C5\<close>. For a pattern name outside the seven keys, \<^verbatim>\<open>create_agent\<close> leaves through
  \<^verbatim>\<open>sys.exit(1)\<close> and changes neither a directory nor a file, whatever the name; for a
  valid name it prints the unknown-pattern line and then the list of the seven valid
  names. (For an invalid name the name check, which comes first, has already ended the
  call.)
\<close>

theorem unknown_pattern_rejected:
  assumes "pattern \<notin> {''researcher'', ''reviewer'', ''specialist'', ''builder'', ''quick'',
                         ''orchestrator'', ''planner''}"
  shows "fst (create_agent name path pattern w) = Exit 1 \<and>
         dirs (snd (create_agent name path pattern w)) = dirs w \<and>
         files (snd (create_agent name path pattern w)) = files w \<and>
         (validate_name name \<longrightarrow>
            stdout (snd (create_agent name path pattern w)) =
              stdout w @
                [''Error: Unknown pattern '' @ [CHR 0x27] @ pattern @ [CHR 0x27],
                 ''Available patterns: researcher, reviewer, specialist, builder, quick, orchestrator, planner''])"
proof -
  have "\<not> map_of TEMPLATES pattern \<noteq> None"
    unfolding registry_lookup using assms .
  then have n: "map_of TEMPLATES pattern = None" by simp
  have j: "join '', '' (map fst TEMPLATES) =
      ''researcher, reviewer, specialist, builder, quick, orchestrator, planner''"
    by (simp add: TEMPLATES_def)
  show ?thesis
  proof (cases "validate_name name")
    case True
    then show ?thesis using n by (simp add: create_agent_def print_def j)
  next
    case False
    then show ?thesis by (simp add: create_agent_def print_def)
  qed
qed

theorem unknown_pattern_rejected_witness:
  "create_agent ''quick-search'' (Path False [''agents'']) ''bogus'' fresh_world =
     (Exit 1,
      \<lparr>dirs = {}, files = Map.empty,
       stdout = [''Error: Unknown pattern '' @ [CHR 0x27] @ ''bogus'' @ [CHR 0x27],
                 ''Available patterns: researcher, reviewer, specialist, builder, quick, orchestrator, planner''],
       stderr = []\<rparr>)"
proof -
  have h: "''bogus'' \<notin> {''researcher'', ''reviewer'', ''specialist'', ''builder'', ''quick'',
                         ''orchestrator'', ''planner''}" by simp
  have e: "stderr (snd (create_agent ''quick-search'' (Path False [''agents'']) ''bogus'' fresh_world)) = []"
    by (simp add: create_agent_def print_def fresh_world_def TEMPLATES_def)
  from unknown_pattern_rejected[OF h, of "''quick-search''" "Path False [''agents'']" fresh_world]
    valid_quick_search e
  show ?thesis
    by (cases "create_agent ''quick-search'' (Path False [''agents'']) ''bogus'' fresh_world")
       (simp add: fresh_world_def)
qed

text \<open>
  \<^bold>\<open>C6\<close>. For a name the validator rejects, \<^verbatim>\<open>create_agent\<close> prints the invalid-name
  line and leaves through \<^verbatim>\<open>sys.exit(1)\<close>; nothing else of the state changes, so no
  directory and no file is created.
\<close>

theorem invalid_name_rejected:
  assumes "\<not> validate_name name"
  shows "create_agent name path pattern w =
           (Exit 1,
            w\<lparr>stdout := stdout w @
               [''Error: Agent name must be lowercase with hyphens only (got: '' @ name @ '')'']\<rparr>) \<and>
         dirs (snd (create_agent name path pattern w)) = dirs w \<and>
         files (snd (create_agent name path pattern w)) = files w"
  using assms by (simp add: create_agent_def print_def)

theorem invalid_name_rejected_witness:
  "\<not> validate_name ''Invalid_Name'' \<and>
   create_agent ''Invalid_Name'' (Path True [''tmp'', ''agents'']) ''specialist'' fresh_world =
     (Exit 1,
      \<lparr>dirs = {}, files = Map.empty,
       stdout = [''Error: Agent name must be lowercase with hyphens only (got: Invalid_Name)''],
       stderr = []\<rparr>)"
proof -
  have h: "\<not> validate_name ''Invalid_Name''"
    by (simp add: lower_char_def)
  from invalid_name_rejected[OF h, of "Path True [''tmp'', ''agents'']" "''specialist''" fresh_world] h
  show ?thesis by (simp add: fresh_world_def)
qed

text \<open>
  \<^bold>\<open>C7\<close>. For a valid name and a known pattern, in a well-formed file system where the
  target file is not there: when no regular file stands in the way, the call succeeds
  and afterwards the target directory and every directory above it exist, the missing
  ones having been created; when the target directory exists already the call succeeds
  as well and the set of directories is the same as before.
\<close>

theorem create_agent_makes_directories:
  assumes v: "validate_name name" and p: "map_of TEMPLATES pattern \<noteq> None"
    and ok: "fs_ok w"
    and fresh: "\<not> path_exists w (truediv path (name @ ''.md''))"
  shows "((\<forall>q \<in> set (lineage path). \<not> is_file w q) \<longrightarrow>
           (\<exists>w1. create_agent name path pattern w = (Return (truediv path (name @ ''.md'')), w1) \<and>
                 dirs w1 = dirs w \<union> set (lineage path) \<and> is_dir w1 path \<and>
                 list_all (is_dir w1) (lineage path))) \<and>
         (is_dir w path \<longrightarrow>
           (\<exists>w1. create_agent name path pattern w = (Return (truediv path (name @ ''.md'')), w1) \<and>
                 dirs w1 = dirs w))"
proof -
  from p obtain t where t: "map_of TEMPLATES pattern = Some t" by blast
  let ?f = "truediv path (name @ ''.md'')"
  let ?w1 = "w\<lparr>dirs := dirs w \<union> set (lineage path), files := (files w)(?f \<mapsto> content name t)\<rparr>"
  have a: "create_agent name path pattern w = (Return ?f, ?w1)"
    if "\<forall>q \<in> set (lineage path). \<not> is_file w q"
    using v t ok that fresh by (rule create_agent_success)
  have d: "is_dir ?w1 path" using self_in_lineage[of path] by (auto simp: is_dir_def)
  have l: "list_all (is_dir ?w1) (lineage path)" by (simp add: list_all_iff is_dir_def)
  have b: "dirs w \<union> set (lineage path) = dirs w" if "is_dir w path"
    using fs_ok_lineage[OF ok that] by blast
  show ?thesis
  proof (intro conjI impI)
    assume c: "\<forall>q \<in> set (lineage path). \<not> is_file w q"
    show "\<exists>w1. create_agent name path pattern w = (Return ?f, w1) \<and>
               dirs w1 = dirs w \<union> set (lineage path) \<and> is_dir w1 path \<and>
               list_all (is_dir w1) (lineage path)"
      using a[OF c] d l by (intro exI[of _ ?w1]) simp
  next
    assume e: "is_dir w path"
    then have "\<forall>q \<in> set (lineage path). \<not> is_file w q"
      using fs_ok_no_file_in_lineage[OF ok] by blast
    then show "\<exists>w1. create_agent name path pattern w = (Return ?f, w1) \<and> dirs w1 = dirs w"
      using a b[OF e] by (intro exI[of _ ?w1]) simp
  qed
qed

theorem create_agent_makes_directories_witness:
  "(\<exists>w1. create_agent ''quick-search'' (Path False [''a'', ''b'', ''c'']) ''quick'' fresh_world =
           (Return (Path False [''a'', ''b'', ''c'', ''quick-search.md'']), w1) \<and>
         dirs w1 = {Path False [''a''], Path False [''a'', ''b''], Path False [''a'', ''b'', ''c'']}) \<and>
   (\<exists>w1. create_agent ''quick-search'' (Path True [''tmp'', ''agents'']) ''quick'' occupied_world =
           (Return (Path True [''tmp'', ''agents'', ''quick-search.md'']), w1) \<and>
         dirs w1 = {Path True [''tmp''], Path True [''tmp'', ''agents'']})"
proof -
  have h2: "map_of TEMPLATES ''quick'' \<noteq> None" by (simp add: TEMPLATES_def)
  have f1: "\<not> path_exists fresh_world (truediv (Path False [''a'', ''b'', ''c'']) (''quick-search'' @ ''.md''))"
    by (simp add: path_exists_def is_dir_def is_file_def truediv_def fresh_world_def)
  have c1: "\<forall>q \<in> set (lineage (Path False [''a'', ''b'', ''c''])). \<not> is_file fresh_world q"
    by (simp add: is_file_def fresh_world_def)
  have f2: "\<not> path_exists occupied_world (truediv (Path True [''tmp'', ''agents'']) (''quick-search'' @ ''.md''))"
    by (simp add: path_exists_def is_dir_def is_file_def truediv_def occupied_world_def)
  have d2: "is_dir occupied_world (Path True [''tmp'', ''agents''])"
    by (simp add: is_dir_def occupied_world_def)
  from create_agent_makes_directories[OF valid_quick_search h2 fs_ok_fresh f1] c1
  obtain w1 where
    "create_agent ''quick-search'' (Path False [''a'', ''b'', ''c'']) ''quick'' fresh_world =
       (Return (truediv (Path False [''a'', ''b'', ''c'']) (''quick-search'' @ ''.md'')), w1)"
    "dirs w1 = dirs fresh_world \<union> set (lineage (Path False [''a'', ''b'', ''c'']))"
    by blast
  then have one: "\<exists>w1. create_agent ''quick-search'' (Path False [''a'', ''b'', ''c'']) ''quick'' fresh_world =
           (Return (Path False [''a'', ''b'', ''c'', ''quick-search.md'']), w1) \<and>
         dirs w1 = {Path False [''a''], Path False [''a'', ''b''], Path False [''a'', ''b'', ''c'']}"
    by (simp add: truediv_def lineage_abc fresh_world_def insert_commute)
  from create_agent_makes_directories[OF valid_quick_search h2 fs_ok_occupied f2] d2
  obtain w2 where
    "create_agent ''quick-search'' (Path True [''tmp'', ''agents'']) ''quick'' occupied_world =
       (Return (truediv (Path True [''tmp'', ''agents'']) (''quick-search'' @ ''.md'')), w2)"
    "dirs w2 = dirs occupied_world"
    by blast
  then have two: "\<exists>w1. create_agent ''quick-search'' (Path True [''tmp'', ''agents'']) ''quick'' occupied_world =
           (Return (Path True [''tmp'', ''agents'', ''quick-search.md'']), w1) \<and>
         dirs w1 = {Path True [''tmp''], Path True [''tmp'', ''agents'']}"
    by (simp add: truediv_def occupied_world_def)
  from one two show ?thesis by blast
qed

text \<open>
  \<^bold>\<open>C8\<close>. The keys of the registry are the seven names, in this order; a lookup finds
  an entry exactly for these strings (not for \<open>''Researcher''\<close>, not for \<open>''quick ''\<close>
  with a blank); every entry has at least one tool, a non-empty model and a non-empty
  prompt. The registry is a constant: no operation of the script takes it as a state
  or returns it.
\<close>

theorem registry_keys_and_entries:
  "map fst TEMPLATES =
     [''researcher'', ''reviewer'', ''specialist'', ''builder'', ''quick'', ''orchestrator'', ''planner''] \<and>
   (map_of TEMPLATES p \<noteq> None) =
     (p \<in> {''researcher'', ''reviewer'', ''specialist'', ''builder'', ''quick'', ''orchestrator'',
            ''planner''}) \<and>
   map_of TEMPLATES ''Researcher'' = None \<and>
   map_of TEMPLATES ''quick '' = None \<and>
   list_all (\<lambda>t. tools t \<noteq> [] \<and> model t \<noteq> [] \<and> prompt t \<noteq> []) (map snd TEMPLATES)"
  by (simp add: TEMPLATES_def prompts_nonempty)




text \<open>
  \<^bold>\<open>C10\<close>. The claim: when \<^verbatim>\<open>create_agent\<close> fails because the file exists, the target
  directory and its missing parents have been created all the same, so the failure is
  not free of effects on the file system. In the state below the file
  \<^verbatim>\<open>/tmp/agents/code-reviewer.md\<close> exists; the call fails with the already-exists line,
  and the directories and files are what they were.
\<close>

theorem already_exists_creates_nothing_counterexample:
  "fst (create_agent ''code-reviewer'' (Path True [''tmp'', ''agents'']) ''reviewer'' occupied_world) = Exit 1 \<and>
   stdout (snd (create_agent ''code-reviewer'' (Path True [''tmp'', ''agents'']) ''reviewer'' occupied_world)) =
     [''Error: Agent file already exists: /tmp/agents/code-reviewer.md''] \<and>
   dirs (snd (create_agent ''code-reviewer'' (Path True [''tmp'', ''agents'']) ''reviewer'' occupied_world)) =
     dirs occupied_world \<and>
   files (snd (create_agent ''code-reviewer'' (Path True [''tmp'', ''agents'']) ''reviewer'' occupied_world)) =
     files occupied_world"
  by (simp add: occupied_exists)

text \<open>
  \<^bold>\<open>C10\<close>, as the code has it. The directory step does run before the existence check,
  but a target file that exists lies in a directory that exists, with all the
  directories above it: in a well-formed file system \<^verbatim>\<open>mkdir\<close> then creates nothing, and
  the failing call changes standard output only. (Paths are taken by their components;
  a path through \<^verbatim>\<open>..\<close> or a symbolic link is outside the model.)
\<close>

theorem already_exists_no_file_system_effect:
  assumes v: "validate_name name" and p: "map_of TEMPLATES pattern \<noteq> None"
    and ok: "fs_ok w" and there: "path_exists w (truediv path (name @ ''.md''))"
  shows "create_agent name path pattern w =
           (Exit 1,
            w\<lparr>stdout := stdout w @
               [''Error: Agent file already exists: '' @ str_path (truediv path (name @ ''.md''))]\<rparr>) \<and>
         mkdir path w = Inr w \<and>
         is_dir w path \<and> list_all (is_dir w) (lineage path)"
proof -
  from p obtain t where t: "map_of TEMPLATES pattern = Some t" by blast
  have d: "is_dir w path"
    using fs_ok_parent_of_existing[OF ok there] by (simp add: parent_truediv)
  have m: "mkdir path w = Inr w" using ok d by (rule mkdir_existing)
  have l: "list_all (is_dir w) (lineage path)"
    using fs_ok_lineage[OF ok d] by (auto simp: list_all_iff is_dir_def)
  have "create_agent name path pattern w =
      (Exit 1, print (''Error: Agent file already exists: '' @ str_path (truediv path (name @ ''.md''))) w)"
    using v t ok there by (rule create_agent_exists)
  with d m l show ?thesis by (simp add: print_def)
qed

theorem already_exists_no_file_system_effect_witness:
  "create_agent ''quick-search'' (Path False [''agents'']) ''quick''
     \<lparr>dirs = {Path False [''agents'']},
      files = [Path False [''agents'', ''quick-search.md''] \<mapsto> ''kept''],
      stdout = [], stderr = []\<rparr> =
   (Exit 1,
    \<lparr>dirs = {Path False [''agents'']},
     files = [Path False [''agents'', ''quick-search.md''] \<mapsto> ''kept''],
     stdout = [''Error: Agent file already exists: agents/quick-search.md''], stderr = []\<rparr>)"
proof -
  let ?w = "\<lparr>dirs = {Path False [''agents'']},
      files = [Path False [''agents'', ''quick-search.md''] \<mapsto> ''kept''],
      stdout = [], stderr = []\<rparr>"
  have h2: "map_of TEMPLATES ''quick'' \<noteq> None" by (simp add: TEMPLATES_def)
  have h3: "fs_ok ?w" by (simp add: fs_ok_def is_dir_def parent_def)
  have h4: "path_exists ?w (truediv (Path False [''agents'']) (''quick-search'' @ ''.md''))"
    by (simp add: path_exists_def is_file_def truediv_def)
  from already_exists_no_file_system_effect[OF valid_quick_search h2 h3 h4]
  show ?thesis by (simp add: truediv_def str_path_def)
qed

end
